theory Spec2Isabelle
  imports Complex_Main "HOL-Library.Sublist"
begin

section \<open>Numbers\<close>

text \<open>
  A JavaScript number is a double.  The model keeps a finite number as the exact rational
  it denotes and has the three values that are not finite as constructors of their own, so
  that \<^verbatim>\<open>Number.isFinite\<close> is a case distinction.  Arithmetic on finite numbers is exact
  rational arithmetic: the rounding of a double is not modelled.
\<close>

datatype number = Num rat | PosInfinity | NegInfinity | NaN

fun isFinite :: "number \<Rightarrow> bool" where
  "isFinite (Num _) = True"
| "isFinite _ = False"

section \<open>Strings\<close>

text \<open>
  A string is a list of UTF-16 code units; the model has the code units below 256, one
  \<open>char\<close> each.  The white space of \<^verbatim>\<open>\s\<close>, \<^verbatim>\<open>trim\<close> and \<^verbatim>\<open>parseFloat\<close> in that range is
  TAB, LF, VT, FF, CR, SPACE and NBSP.  Upper- and lower-casing are modelled on the ASCII
  letters; other code units are left as they are.  Character classes are given by the
  list of their members.
\<close>

definition spaces :: string where
  "spaces = [CHR 0x09, CHR 0x0A, CHR 0x0B, CHR 0x0C, CHR 0x0D, CHR 0x20, CHR 0xA0]"

definition isSpace :: "char \<Rightarrow> bool" where
  "isSpace c = (c \<in> set spaces)"

definition isDigit :: "char \<Rightarrow> bool" where
  "isDigit c = (c \<in> set ''0123456789'')"

definition lowerLetters :: string where
  "lowerLetters = ''abcdefghijklmnopqrstuvwxyz''"

definition upperLetters :: string where
  "upperLetters = ''ABCDEFGHIJKLMNOPQRSTUVWXYZ''"

definition toUpperChar :: "char \<Rightarrow> char" where
  "toUpperChar c = (case map_of (zip lowerLetters upperLetters) c of None \<Rightarrow> c | Some u \<Rightarrow> u)"

definition toLowerChar :: "char \<Rightarrow> char" where
  "toLowerChar c = (case map_of (zip upperLetters lowerLetters) c of None \<Rightarrow> c | Some l \<Rightarrow> l)"

definition toUpperCase :: "string \<Rightarrow> string" where
  "toUpperCase s = map toUpperChar s"

definition toLowerCase :: "string \<Rightarrow> string" where
  "toLowerCase s = map toLowerChar s"

definition trim :: "string \<Rightarrow> string" where
  "trim s = rev (dropWhile isSpace (rev (dropWhile isSpace s)))"

fun startsWith :: "string \<Rightarrow> string \<Rightarrow> bool" where
  "startsWith s [] = True"
| "startsWith [] (p # ps) = False"
| "startsWith (c # cs) (p # ps) = (c = p \<and> startsWith cs ps)"

fun includes_str :: "string \<Rightarrow> string \<Rightarrow> bool" where
  "includes_str [] p = startsWith [] p"
| "includes_str (c # cs) p = (startsWith (c # cs) p \<or> includes_str cs p)"

text \<open>\<^verbatim>\<open>s.split(sep)\<close> with a one-character string separator.\<close>

fun splitOn :: "char \<Rightarrow> string \<Rightarrow> string list" where
  "splitOn sep [] = [[]]"
| "splitOn sep (c # cs) =
     (if c = sep then [] # splitOn sep cs
      else (case splitOn sep cs of [] \<Rightarrow> [[c]] | p # ps \<Rightarrow> (c # p) # ps))"

text \<open>\<^verbatim>\<open>xs.join(sep)\<close>.\<close>

fun join :: "string \<Rightarrow> string list \<Rightarrow> string" where
  "join sep [] = []"
| "join sep [x] = x"
| "join sep (x # y # ys) = x @ sep @ join sep (y # ys)"

section \<open>Regular expressions\<close>

text \<open>
  The regular expressions of the source, as terms.  \<open>RSet neg cs\<close> is a character class
  with its members listed (\<open>neg\<close> for \<^verbatim>\<open>[^...]\<close>), \<open>RStar\<close> the greedy \<^verbatim>\<open>*\<close>,
  \<open>RLazy\<close> the non-greedy \<^verbatim>\<open>*?\<close>, \<open>ROpt\<close> the greedy \<^verbatim>\<open>?\<close>.
\<close>

datatype regex =
    REps
  | RLit char
  | RSet bool string
  | RSeq regex regex
  | ROpt regex
  | RStar regex
  | RLazy regex

abbreviation RPlus :: "regex \<Rightarrow> regex" where
  "RPlus r \<equiv> RSeq r (RStar r)"

fun RStr :: "string \<Rightarrow> regex" where
  "RStr [] = REps"
| "RStr [c] = RLit c"
| "RStr (c # cs) = RSeq (RLit c) (RStr cs)"

text \<open>
  With the flag \<^verbatim>\<open>i\<close> (\<open>ci\<close>) two characters match when their upper-case forms agree;
  a class then holds a character when it holds one of its two case forms.
\<close>

definition litMatch :: "bool \<Rightarrow> char \<Rightarrow> char \<Rightarrow> bool" where
  "litMatch ci c x = (if c = x then True else if ci then toUpperChar c = toUpperChar x else False)"

definition setMatch :: "bool \<Rightarrow> bool \<Rightarrow> string \<Rightarrow> char \<Rightarrow> bool" where
  "setMatch ci neg cs x =
     (neg \<noteq>
        (if x \<in> set cs then True
         else if ci then (if toUpperChar x \<in> set cs then True else toLowerChar x \<in> set cs)
         else False))"

text \<open>
  The backtracking matcher, anchored at the start of the string: the list of the
  remainders after every way the expression can match, in the order in which the
  backtracking of JavaScript tries them.  The head of the list is the match that
  JavaScript reports.  An iteration of a star that consumes nothing is not repeated.
\<close>

fun rmatch :: "bool \<Rightarrow> regex \<Rightarrow> string \<Rightarrow> string list" where
  "rmatch ci REps s = [s]"
| "rmatch ci (RLit c) s = (case s of [] \<Rightarrow> [] | x # t \<Rightarrow> if litMatch ci c x then [t] else [])"
| "rmatch ci (RSet neg cs) s =
     (case s of [] \<Rightarrow> [] | x # t \<Rightarrow> if setMatch ci neg cs x then [t] else [])"
| "rmatch ci (RSeq a b) s = concat (map (rmatch ci b) (rmatch ci a s))"
| "rmatch ci (ROpt a) s = rmatch ci a s @ [s]"
| "rmatch ci (RStar a) s =
     concat (map (rmatch ci (RStar a)) (filter (\<lambda>t. length t < length s) (rmatch ci a s))) @ [s]"
| "rmatch ci (RLazy a) s =
     s # concat (map (rmatch ci (RLazy a)) (filter (\<lambda>t. length t < length s) (rmatch ci a s)))"

declare rmatch.simps [simp del]

text \<open>
  A pattern with one capture group is given as its three parts: what stands before the
  group, the group, and what stands after it.  The result lists (group 1, remainder).
\<close>

definition rmatch3 :: "bool \<Rightarrow> regex \<Rightarrow> regex \<Rightarrow> regex \<Rightarrow> string \<Rightarrow> (string \<times> string) list" where
  "rmatch3 ci p c q s =
     concat (map (\<lambda>s1.
       concat (map (\<lambda>s2.
         map (\<lambda>rest. (take (length s1 - length s2) s1, rest)) (rmatch ci q s2))
       (rmatch ci c s1)))
     (rmatch ci p s))"

text \<open>\<^verbatim>\<open>s.match(re)\<close> without the flag \<^verbatim>\<open>g\<close>: group 1 of the leftmost match, if any.\<close>

fun execCap :: "bool \<Rightarrow> regex \<Rightarrow> regex \<Rightarrow> regex \<Rightarrow> string \<Rightarrow> string option" where
  "execCap ci p c q [] = (case rmatch3 ci p c q [] of [] \<Rightarrow> None | (g, _) # _ \<Rightarrow> Some g)"
| "execCap ci p c q (x # t) =
     (case rmatch3 ci p c q (x # t) of [] \<Rightarrow> execCap ci p c q t | (g, _) # _ \<Rightarrow> Some g)"

text \<open>\<^verbatim>\<open>s.search(re)\<close>: the index of the leftmost match, or -1.\<close>

fun search_from :: "bool \<Rightarrow> regex \<Rightarrow> string \<Rightarrow> int \<Rightarrow> int" where
  "search_from ci r [] i = (if rmatch ci r [] = [] then - 1 else i)"
| "search_from ci r (x # t) i = (if rmatch ci r (x # t) = [] then search_from ci r t (i + 1) else i)"

definition search :: "bool \<Rightarrow> regex \<Rightarrow> string \<Rightarrow> int" where
  "search ci r s = search_from ci r s 0"

text \<open>
  The matches of a pattern with the flag \<^verbatim>\<open>g\<close>, left to right and not overlapping:
  group 1 of each (\<^verbatim>\<open>matchAll\<close> and \<^verbatim>\<open>m[1]\<close>).  After an empty match the search moves
  on by one character.
\<close>

function matchAllCap :: "bool \<Rightarrow> regex \<Rightarrow> regex \<Rightarrow> regex \<Rightarrow> string \<Rightarrow> string list" where
  "matchAllCap ci p c q s =
     (case rmatch3 ci p c q s of
        [] \<Rightarrow> (case s of [] \<Rightarrow> [] | _ # t \<Rightarrow> matchAllCap ci p c q t)
      | (g, rest) # _ \<Rightarrow>
          if length rest < length s then g # matchAllCap ci p c q rest
          else g # (case s of [] \<Rightarrow> [] | _ # t \<Rightarrow> matchAllCap ci p c q t))"
  by pat_completeness auto
termination
  by (relation "measure (\<lambda>(ci, p, c, q, s). length s)") auto

declare matchAllCap.simps [simp del]

text \<open>\<^verbatim>\<open>s.match(re)\<close> with the flag \<^verbatim>\<open>g\<close>: the matched texts (the whole pattern is the group).\<close>

definition matchAllText :: "bool \<Rightarrow> regex \<Rightarrow> string \<Rightarrow> string list" where
  "matchAllText ci r s = matchAllCap ci REps r REps s"

text \<open>
  \<^verbatim>\<open>s.replace(re, rep)\<close> with the flag \<^verbatim>\<open>g\<close>, for a replacement text that is inserted
  as it stands.
\<close>

function replaceAll :: "bool \<Rightarrow> regex \<Rightarrow> string \<Rightarrow> string \<Rightarrow> string" where
  "replaceAll ci r rep s =
     (case rmatch ci r s of
        [] \<Rightarrow> (case s of [] \<Rightarrow> [] | x # t \<Rightarrow> x # replaceAll ci r rep t)
      | rest # _ \<Rightarrow>
          if length rest < length s then rep @ replaceAll ci r rep rest
          else rep @ (case s of [] \<Rightarrow> [] | x # t \<Rightarrow> x # replaceAll ci r rep t))"
  by pat_completeness auto
termination
  by (relation "measure (\<lambda>(ci, r, rep, s). length s)") auto

declare replaceAll.simps [simp del]

text \<open>
  \<^verbatim>\<open>s.split(re)\<close>: \<open>piece\<close> is the text since the end of the last separator.  A match
  is looked for at every position before the end of the string; an empty match at the
  start of a piece is skipped.
\<close>

function split_go :: "regex \<Rightarrow> string \<Rightarrow> string \<Rightarrow> string list" where
  "split_go r piece s =
     (case s of
        [] \<Rightarrow> [piece]
      | x # t \<Rightarrow>
          (case rmatch False r s of
             [] \<Rightarrow> split_go r (piece @ [x]) t
           | rest # _ \<Rightarrow>
               if length rest < length s then piece # split_go r [] rest
               else if piece = [] then split_go r [x] t
               else piece # split_go r [x] t))"
  by pat_completeness auto
termination
  by (relation "measure (\<lambda>(r, piece, s). length s)") auto

declare split_go.simps [simp del]

definition splitRe :: "regex \<Rightarrow> string \<Rightarrow> string list" where
  "splitRe r s = (if s = [] then (if rmatch False r [] = [] then [[]] else []) else split_go r [] s)"

text \<open>The character classes and the two shapes of tag that the source's patterns use.\<close>

text \<open>\<^verbatim>\<open>[\s\S]\<close>: every character.\<close>

definition anyChar :: regex where
  "anyChar = RSet True []"

text \<open>\<^verbatim>\<open>\s\<close>\<close>

definition spaceChar :: regex where
  "spaceChar = RSet False spaces"

text \<open>\<^verbatim>\<open>(?:[a-zA-Z0-9_]+:)?\<close>\<close>

definition nsPrefix :: regex where
  "nsPrefix =
     ROpt (RSeq (RPlus (RSet False (lowerLetters @ upperLetters @ ''0123456789_''))) (RLit (CHR '':'')))"

section \<open>Reading and printing numbers\<close>

fun digitsVal :: "string \<Rightarrow> nat \<Rightarrow> nat" where
  "digitsVal [] acc = acc"
| "digitsVal (c # cs) acc = digitsVal cs (acc * 10 + (of_char c - 48))"

text \<open>An optional sign: whether it is a minus, and the rest.\<close>

fun signOf :: "string \<Rightarrow> bool \<times> string" where
  "signOf [] = (False, [])"
| "signOf (c # t) =
     (if c = CHR ''-'' then (True, t) else if c = CHR ''+'' then (False, t) else (False, c # t))"

text \<open>
  The exponent part after the mantissa: \<^verbatim>\<open>e\<close> or \<^verbatim>\<open>E\<close>, an optional sign and at least
  one digit; anything else is no exponent part.
\<close>

definition exponentOf :: "string \<Rightarrow> int" where
  "exponentOf r =
     (case r of
        [] \<Rightarrow> 0
      | c # t \<Rightarrow>
          if c = CHR ''e'' \<or> c = CHR ''E'' then
            (let (eneg, t') = signOf t; ed = takeWhile isDigit t'
             in if ed = [] then 0
                else if eneg then - int (digitsVal ed 0) else int (digitsVal ed 0))
          else 0)"

text \<open>
  A decimal value as the double that JavaScript makes of it: a value that rounds beyond
  the largest double becomes an infinity.  A finite value is kept exact.  The bound
  is \<open>2^1024 - 2^970\<close>, half a unit in the last place above the largest double.
\<close>

definition overflowBound :: rat where
  "overflowBound =
     179769313486231580793728971405303415079934132710037826936173778980444968292764750946649017977587207096330286416692887910946555547851940402630657488671505820681908902000708383676273854845817711531764475730270069855571366959622842914819860834936475292719074168444365510704342711559699508093042880177904174497792"

definition toDouble :: "rat \<Rightarrow> number" where
  "toDouble v =
     (if v \<ge> overflowBound then PosInfinity
      else if v \<le> - overflowBound then NegInfinity
      else Num v)"

text \<open>
  The built-in \<^verbatim>\<open>parseFloat\<close>: leading white space is skipped, then the longest prefix
  that is a decimal literal is read (a sign, then \<^verbatim>\<open>Infinity\<close> or digits with an
  optional fraction and exponent); what follows is ignored; no such prefix gives NaN.
\<close>

definition parseFloat :: "string \<Rightarrow> number" where
  "parseFloat str =
     (let (neg, s1) = signOf (dropWhile isSpace str)
      in if startsWith s1 ''Infinity'' then (if neg then NegInfinity else PosInfinity)
         else
           (let ip = takeWhile isDigit s1; r1 = dropWhile isDigit s1;
                (fp, r2) = (case r1 of
                              [] \<Rightarrow> ([], [])
                            | c # t \<Rightarrow> if c = CHR ''.'' then (takeWhile isDigit t, dropWhile isDigit t)
                                       else ([], r1))
            in if ip = [] \<and> fp = [] then NaN
               else
                 (let m = (of_nat (digitsVal (ip @ fp) 0) :: rat);
                      v = m * 10 powi (exponentOf r2 - int (length fp))
                  in toDouble (if neg then - v else v))))"

definition digitChar :: "nat \<Rightarrow> char" where
  "digitChar d = ''0123456789'' ! (d mod 10)"

fun showNat :: "nat \<Rightarrow> string" where
  "showNat n = (if n < 10 then [digitChar n] else showNat (n div 10) @ [digitChar (n mod 10)])"

declare showNat.simps [simp del]

text \<open>
  \<^verbatim>\<open>x.toFixed(2)\<close>: the sign, then the integer nearest to \<open>100 * |x|\<close> (the larger one of
  two) with a point before its last two digits.  (From \<open>10^21\<close> on JavaScript prints
  the exponent notation instead; the model prints every value this way.  The model rounds
  the exact decimal value, JavaScript the double nearest to it, so the last digit can
  differ for a value that lies on a rounding boundary, such as 1.005.)
\<close>

definition toFixed2 :: "rat \<Rightarrow> string" where
  "toFixed2 x =
     (let a = \<bar>x\<bar>; n = nat \<lfloor>a * 100 + 1 / 2\<rfloor>;
          m = showNat (n div 100) @ ''.'' @ [digitChar (n mod 100 div 10), digitChar (n mod 10)]
      in if x < 0 then ''-'' @ m else m)"

section \<open>Polygon geometry\<close>

text \<open>A polygon point is the two-element array \<^verbatim>\<open>[lat, lon]\<close>: index 0 is the latitude.\<close>

type_synonym point = "rat \<times> rat"

text \<open>
  \<^verbatim>\<open>for (let i = 0, j = poly.length - 1; i < poly.length; j = i++)\<close>: the loop of
  \<^verbatim>\<open>pointInPolygon\<close>, with its three variables \<open>i\<close>, \<open>j\<close> and \<open>inside\<close>.
  \<^verbatim>\<open>(yj - yi) || 1e-12\<close> replaces a zero difference by the epsilon.  The result is
  \<open>None\<close> when the loop throws: \<^verbatim>\<open>poly[j]\<close> is \<^verbatim>\<open>undefined\<close> for an index beyond the
  end of the array, and reading an element of it is a TypeError.
\<close>

function pip_loop :: "rat \<Rightarrow> rat \<Rightarrow> point list \<Rightarrow> nat \<Rightarrow> nat \<Rightarrow> bool \<Rightarrow> bool option" where
  "pip_loop lat lon poly i j inside =
     (if i < length poly then
        (if j < length poly then
           (let xi = snd (poly ! i); yi = fst (poly ! i);
                xj = snd (poly ! j); yj = fst (poly ! j);
                intersect = ((yi > lat) \<noteq> (yj > lat) \<and>
                  lon < ((xj - xi) * (lat - yi)) / (if yj - yi = 0 then 1 / 10 ^ 12 else yj - yi) + xi)
            in pip_loop lat lon poly (Suc i) i (if intersect then \<not> inside else inside))
         else None)
      else Some inside)"
  by pat_completeness auto
termination
  by (relation "measure (\<lambda>(lat, lon, poly, i, j, inside). length poly - i)") auto

declare pip_loop.simps [simp del]

text \<open>
  The argument is \<open>None\<close> when the caller passes something that is not an array
  (\<^verbatim>\<open>!Array.isArray(poly)\<close>).
\<close>

definition pointInPolygon :: "rat \<Rightarrow> rat \<Rightarrow> point list option \<Rightarrow> bool option" where
  "pointInPolygon lat lon poly =
     (case poly of
        None \<Rightarrow> Some False
      | Some ps \<Rightarrow>
          if length ps < 3 then Some False else pip_loop lat lon ps 0 (length ps - 1) False)"

text \<open>
  \<^verbatim>\<open>parsePolygon\<close>.  The argument is \<open>None\<close> for \<^verbatim>\<open>null\<close>.  \<open>parsePoint\<close> is the arrow
  function given to \<^verbatim>\<open>map\<close>: \<^verbatim>\<open>[la, lo] = p.split(',')\<close> leaves \<^verbatim>\<open>lo\<close> undefined when
  the token has no comma, and \<^verbatim>\<open>parseFloat(undefined)\<close> reads the text \<^verbatim>\<open>undefined\<close>.
\<close>

definition parsePoint :: "string \<Rightarrow> point option" where
  "parsePoint p =
     (let parts = splitOn (CHR '','') p;
          la = (case parts of [] \<Rightarrow> ''undefined'' | a # _ \<Rightarrow> a);
          lo = (case parts of a # b # _ \<Rightarrow> b | _ \<Rightarrow> ''undefined'')
      in case (parseFloat la, parseFloat lo) of
           (Num lat, Num lon) \<Rightarrow> Some (lat, lon)
         | _ \<Rightarrow> None)"

definition parsePolygon :: "string option \<Rightarrow> point list option" where
  "parsePolygon str =
     (case str of
        None \<Rightarrow> None
      | Some s \<Rightarrow>
          if s = [] then None
          else
            (let pts = List.map_filter parsePoint (splitRe (RPlus spaceChar) (trim s))
             in if length pts \<ge> 3 then Some pts else None))"

section \<open>Atom entry parser\<close>

text \<open>
  An entry as \<^verbatim>\<open>parseAtom\<close> builds it.  A scalar field is \<open>None\<close> for \<^verbatim>\<open>null\<close>;
  \<open>polygon\<close> is \<open>None\<close> when \<^verbatim>\<open>parsePolygon\<close> returned \<^verbatim>\<open>null\<close>.
\<close>

record alertEntry =
  entry_id :: "string option"
  title :: "string option"
  summary :: "string option"
  updated :: "string option"
  effective :: "string option"
  expires :: "string option"
  areaDesc :: "string option"
  severity :: "string option"
  event :: "string option"
  link :: "string option"
  ugc :: "string list"
  fips6 :: "string list"
  polygon :: "point list option"

text \<open>
  \<^verbatim>\<open><(?:[a-zA-Z0-9_]+:)?TAG[^>]*>\<close> and \<^verbatim>\<open><\/(?:[a-zA-Z0-9_]+:)?TAG>\<close>, the two ends
  of the pattern that \<^verbatim>\<open>get\<close> builds for a tag.
\<close>

definition openTag :: "string \<Rightarrow> regex" where
  "openTag tag =
     RSeq (RLit (CHR ''<'')) (RSeq nsPrefix (RSeq (RStr tag)
       (RSeq (RStar (RSet True ''>'')) (RLit (CHR ''>'')))))"

definition closeTag :: "string \<Rightarrow> regex" where
  "closeTag tag = RSeq (RStr ''</'') (RSeq nsPrefix (RSeq (RStr tag) (RLit (CHR ''>''))))"

text \<open>
  The pattern of the \<^verbatim>\<open>replace\<close> in \<^verbatim>\<open>get\<close>, which the source writes as the literal
  \<^verbatim>\<open>/<!\\[CDATA\\[(.*?)\\]\\]>/g\<close>.  In a regular expression literal \<^verbatim>\<open>\\\<close> is an
  escaped backslash, so the literal reads: \<^verbatim>\<open><!\<close>, a backslash, one character of the
  class \<^verbatim>\<open>[CDATA\\[(.*?)\\]\<close> (the letters C, D, A, T, a backslash, and the characters
  \<^verbatim>\<open>[ ( . * ? )\<close>), a backslash, \<^verbatim>\<open>]\<close> and \<^verbatim>\<open>>\<close>.  The parentheses stand inside
  the class, so the pattern has no group, and the replacement \<^verbatim>\<open>'$1'\<close> is inserted as
  the two characters it is written with.
\<close>

definition cdataRe :: regex where
  "cdataRe =
     RSeq (RStr [CHR ''<'', CHR ''!'', CHR 0x5C])
       (RSeq (RSet False (''CDATA'' @ [CHR 0x5C] @ ''[(.*?)'' @ [CHR 0x5C]))
        (RStr [CHR 0x5C, CHR '']'', CHR ''>'']))"

text \<open>The closure \<^verbatim>\<open>get\<close> of \<^verbatim>\<open>parseAtom\<close>, with the entry block \<open>b\<close> as an argument.\<close>

definition get :: "string \<Rightarrow> string \<Rightarrow> string option" where
  "get b tag =
     (case execCap True (openTag tag) (RLazy anyChar) (closeTag tag) b of
        None \<Rightarrow> None
      | Some m1 \<Rightarrow> Some (trim (replaceAll False cdataRe ''$1'' m1)))"

text \<open>\<^verbatim>\<open>/<link[^>]+href="([^"]+)"/i\<close>\<close>

definition linkMatch :: "string \<Rightarrow> string option" where
  "linkMatch b =
     execCap True
       (RSeq (RStr ''<link'') (RSeq (RPlus (RSet True ''>'')) (RStr (''href='' @ [CHR 0x22]))))
       (RPlus (RSet True [CHR 0x22]))
       (RLit (CHR 0x22))
       b"

text \<open>\<^verbatim>\<open>/<(?:[a-zA-Z0-9_]+:)?geocode[\s\S]*?<\/(?:[a-zA-Z0-9_]+:)?geocode>/gi\<close>\<close>

definition geocodeRe :: regex where
  "geocodeRe =
     RSeq (RLit (CHR ''<'')) (RSeq nsPrefix (RSeq (RStr ''geocode'') (RSeq (RLazy anyChar)
       (RSeq (RStr ''</'') (RSeq nsPrefix (RStr ''geocode>''))))))"

text \<open>\<^verbatim>\<open>/<valueName>\s*NAME\s*<\/valueName>/i\<close>, for the names UGC and FIPS6.\<close>

definition valueNameRe :: "string \<Rightarrow> regex" where
  "valueNameRe name =
     RSeq (RStr ''<valueName>'') (RSeq (RStar spaceChar) (RSeq (RStr name)
       (RSeq (RStar spaceChar) (RStr ''</valueName>''))))"

text \<open>\<^verbatim>\<open>/[\s,;]+/g\<close>\<close>

definition codeSepRe :: regex where
  "codeSepRe =
     RPlus (RSet False (spaces @ '',;''))"

text \<open>
  The two blocks in the loop over the geocode blocks: what one block \<open>g\<close> adds to
  \<^verbatim>\<open>ugc\<close> and to \<^verbatim>\<open>fips6\<close>.
\<close>

definition ugcOf :: "string \<Rightarrow> string list" where
  "ugcOf g =
     (let ugcIdx = search True (valueNameRe ''UGC'') g
      in if ugcIdx \<ge> 0 then
           (let after = drop (nat ugcIdx) g;
                stop = search True (RStr ''<valueName>'') after;
                seg = (if stop > 0 then take (nat stop) after else after);
                vals = matchAllCap True (RStr ''<value>'') (RLazy anyChar) (RStr ''</value>'') seg
            in concat (map (\<lambda>v.
                 filter (\<lambda>c. c \<noteq> [])
                   (map (\<lambda>code. toUpperCase (trim code)) (splitRe codeSepRe v))) vals))
         else [])"

definition fips6Of :: "string \<Rightarrow> string list" where
  "fips6Of g =
     (let fipsIdx = search True (valueNameRe ''FIPS6'') g
      in if fipsIdx \<ge> 0 then
           (let after = drop (nat fipsIdx) g;
                stop = search True (RStr ''<valueName>'') after;
                seg = (if stop > 0 then take (nat stop) after else after);
                vals = matchAllCap True (RStr ''<value>'') (RLazy anyChar) (RStr ''</value>'') seg
            in concat (map (\<lambda>v.
                 filter (\<lambda>c. c \<noteq> [])
                   (map (\<lambda>code. trim code) (splitRe codeSepRe v))) vals))
         else [])"

text \<open>\<^verbatim>\<open>a || b\<close> on values that are a string or \<^verbatim>\<open>null\<close>: the empty string is falsy.\<close>

definition truthy :: "string option \<Rightarrow> bool" where
  "truthy x = (case x of None \<Rightarrow> False | Some s \<Rightarrow> s \<noteq> [])"

definition orElse :: "string option \<Rightarrow> string option \<Rightarrow> string option" where
  "orElse a b = (if truthy a then a else b)"

text \<open>The body of the loop over the entry blocks.\<close>

definition parseEntry :: "string \<Rightarrow> alertEntry" where
  "parseEntry b =
     (let geocodes = matchAllText True geocodeRe b
      in \<lparr> entry_id = get b ''id'',
           title = get b ''title'',
           summary = get b ''summary'',
           updated = orElse (get b ''updated'') (orElse (get b ''sent'') None),
           effective = get b ''effective'',
           expires = get b ''expires'',
           areaDesc = get b ''areaDesc'',
           severity = get b ''severity'',
           event = get b ''event'',
           link = linkMatch b,
           ugc = concat (map ugcOf geocodes),
           fips6 = concat (map fips6Of geocodes),
           polygon = parsePolygon (get b ''polygon'') \<rparr>)"

text \<open>\<^verbatim>\<open>/<entry[\s\S]*?<\/entry>/gi\<close>\<close>

definition entryRe :: regex where
  "entryRe = RSeq (RStr ''<entry'') (RSeq (RLazy anyChar) (RStr ''</entry>''))"

definition parseAtom :: "string \<Rightarrow> alertEntry list" where
  "parseAtom xml = map parseEntry (matchAllText True entryRe xml)"

section \<open>Alert aggregator\<close>

text \<open>
  \<^verbatim>\<open>byId\<close> is a \<^verbatim>\<open>Map\<close>, which keeps its keys in the order of their insertion: a list
  of pairs, extended at its end.  \<^verbatim>\<open>it?.id && !byId.has(it.id)\<close> asks for an id that
  is neither \<^verbatim>\<open>null\<close> nor the empty string and not yet a key.
\<close>

fun dedupe_loop :: "alertEntry list \<Rightarrow> (string \<times> alertEntry) list \<Rightarrow> (string \<times> alertEntry) list" where
  "dedupe_loop [] byId = byId"
| "dedupe_loop (it # rest) byId =
     (case entry_id it of
        None \<Rightarrow> dedupe_loop rest byId
      | Some k \<Rightarrow>
          if k \<noteq> [] \<and> map_of byId k = None then dedupe_loop rest (byId @ [(k, it)])
          else dedupe_loop rest byId)"

text \<open>\<^verbatim>\<open>Array.from(byId.values())\<close> after the loop.\<close>

definition dedupe :: "alertEntry list \<Rightarrow> alertEntry list" where
  "dedupe merged = map snd (dedupe_loop merged [])"

definition fullName :: "string \<Rightarrow> string option" where
  "fullName st =
     (if st = ''GA'' then Some ''GEORGIA''
      else if st = ''AL'' then Some ''ALABAMA''
      else if st = ''FL'' then Some ''FLORIDA''
      else if st = ''SC'' then Some ''SOUTH CAROLINA''
      else if st = ''NC'' then Some ''NORTH CAROLINA''
      else None)"

text \<open>\<^verbatim>\<open>x || ''\<close> for a field that is a string or \<^verbatim>\<open>null\<close>.\<close>

definition orEmpty :: "string option \<Rightarrow> string" where
  "orEmpty x = (case x of None \<Rightarrow> [] | Some s \<Rightarrow> s)"

text \<open>The predicate given to \<^verbatim>\<open>items.filter\<close> in the state filter.\<close>

definition stateMatch :: "string \<Rightarrow> alertEntry \<Rightarrow> bool" where
  "stateMatch st i =
     (if list_ex (\<lambda>code. startsWith code st) (ugc i) then True
      else
        (let hay = toUpperCase (orEmpty (areaDesc i) @ '' '' @ orEmpty (summary i) @ '' '' @ orEmpty (title i))
         in if includes_str hay ('' '' @ st) \<or> includes_str hay (''('' @ st @ '')'')
               \<or> includes_str hay (st @ ''-'') \<or> includes_str hay (st @ '','') then True
            else (case fullName st of None \<Rightarrow> False | Some name \<Rightarrow> includes_str hay name)))"

text \<open>
  The state filter with its fallback: the new working list and the number
  \<^verbatim>\<open>afterState\<close>.  \<open>all\<close> is \<^verbatim>\<open>Array.from(byId.values())\<close>.
\<close>

definition stateFilter :: "string \<Rightarrow> alertEntry list \<Rightarrow> alertEntry list \<times> nat" where
  "stateFilter st all =
     (if st \<noteq> [] \<and> st \<noteq> ''ALL'' then
        (let kept = filter (stateMatch st) all
         in if length kept = 0 then (all, length kept) else (kept, length kept))
      else (all, length all))"

text \<open>
  The polygon filter: the new working list and the number \<^verbatim>\<open>afterPoly\<close>.  The
  predicate of the filter holds when \<^verbatim>\<open>pointInPolygon\<close> returns true; the function
  returns for every argument (lemma \<open>pointInPolygon_returns\<close> below), so the filter does
  not throw.
\<close>

definition polygonFilter :: "rat \<Rightarrow> rat \<Rightarrow> alertEntry list \<Rightarrow> alertEntry list \<times> nat" where
  "polygonFilter lat lon its =
     (let polyHits = filter (\<lambda>i. polygon i \<noteq> None \<and> pointInPolygon lat lon (polygon i) = Some True) its
      in (if length polyHits > 0 then polyHits else its, length polyHits))"

definition ALERT_ATOM_URLS :: "string list" where
  "ALERT_ATOM_URLS =
     [''https://api.weather.gov/alerts/active.atom?event=Tornado+Warning'',
      ''https://api.weather.gov/alerts/active.atom?event=Severe+Thunderstorm+Warning'',
      ''https://api.weather.gov/alerts/active.atom?event=Flash+Flood+Warning'']"

record debugInfo =
  fetched :: nat
  afterState :: nat
  afterPoly :: nat
  feeds :: nat

record alertResult =
  state :: string
  point :: "rat \<times> rat"
  count :: nat
  items :: "alertEntry list"
  fetchedAt :: string
  debug :: debugInfo

text \<open>
  The handler from the merged entries on: deduplication, the two filters, the cap and the
  result.  \<open>stamp\<close> is the text of \<^verbatim>\<open>new Date().toISOString()\<close>.
\<close>

definition aggregateEntries :: "string \<Rightarrow> rat \<Rightarrow> rat \<Rightarrow> string \<Rightarrow> alertEntry list \<Rightarrow> alertResult" where
  "aggregateEntries st lat lon stamp merged =
     (let all = dedupe merged;
          fetchedCount = length all;
          (its1, nState) = stateFilter st all;
          (its2, nPoly) = polygonFilter lat lon its1;
          its3 = take 50 its2
      in \<lparr> state = st, point = (lat, lon), count = length its3, items = its3, fetchedAt = stamp,
           debug = \<lparr> fetched = fetchedCount, afterState = nState, afterPoly = nPoly,
                     feeds = length ALERT_ATOM_URLS \<rparr> \<rparr>)"

text \<open>\<^verbatim>\<open>for (const xml of xmls) merged.push(...parseAtom(xml))\<close>, then the rest.\<close>

definition aggregate :: "string \<Rightarrow> rat \<Rightarrow> rat \<Rightarrow> string \<Rightarrow> string list \<Rightarrow> alertResult" where
  "aggregate st lat lon stamp xmls = aggregateEntries st lat lon stamp (concat (map parseAtom xmls))"

section \<open>Response cache and handlers\<close>

text \<open>
  The cache is a \<^verbatim>\<open>Map\<close> from key to \<^verbatim>\<open>{ data, expiresAt }\<close>.  The source has no
  functions of its own for reading and writing it; every handler repeats the two idioms
  \<^verbatim>\<open>const entry = cache.get(key); if (entry && entry.expiresAt > now) return res.json(entry.data)\<close>
  and \<^verbatim>\<open>cache.set(key, { data, expiresAt: now + TTL })\<close>, which are \<open>cacheRead\<close> and
  \<open>cacheWrite\<close>.  Times are milliseconds (\<^verbatim>\<open>Date.now()\<close>).
\<close>

record 'd cacheEntry =
  data :: 'd
  expiresAt :: int

type_synonym 'd cache = "string \<Rightarrow> 'd cacheEntry option"

definition cacheRead :: "'d cache \<Rightarrow> string \<Rightarrow> int \<Rightarrow> 'd option" where
  "cacheRead cache key now =
     (case cache key of
        None \<Rightarrow> None
      | Some entry \<Rightarrow> if expiresAt entry > now then Some (data entry) else None)"

definition cacheWrite :: "'d cache \<Rightarrow> string \<Rightarrow> 'd \<Rightarrow> int \<Rightarrow> int \<Rightarrow> 'd cache" where
  "cacheWrite cache key d now ttl = cache(key \<mapsto> \<lparr> data = d, expiresAt = now + ttl \<rparr>)"

definition DEFAULT_TTL_MS :: int where
  "DEFAULT_TTL_MS = 60 * 1000"

definition AIR_TTL_MS :: int where
  "AIR_TTL_MS = 10 * 60 * 1000"

definition ALERTS_TTL_MS :: int where
  "ALERTS_TTL_MS = 2 * 60 * 1000"

definition DEFAULT_COORDS :: "rat \<times> rat" where
  "DEFAULT_COORDS = (33749 / 1000, - 84388 / 1000)"

text \<open>
  What \<^verbatim>\<open>fetch\<close> gives for one URL: the call throws, or there is a response with a
  status and a body.  \<^verbatim>\<open>r.ok\<close> holds for the statuses 200 to 299.
\<close>

datatype httpResult = NetworkError | Http nat string

text \<open>
  \<^verbatim>\<open>Promise.all(urls.map(...))\<close>: the bodies in the order of the URLs, or \<open>None\<close> when
  one of the fetches throws.
\<close>

fun fetchAll :: "(string \<Rightarrow> httpResult) \<Rightarrow> string list \<Rightarrow> string list option" where
  "fetchAll fetch [] = Some []"
| "fetchAll fetch (u # us) =
     (case fetch u of
        NetworkError \<Rightarrow> None
      | Http status body \<Rightarrow>
          if 200 \<le> status \<and> status \<le> 299 then
            (case fetchAll fetch us of None \<Rightarrow> None | Some bodies \<Rightarrow> Some (body # bodies))
          else None)"

text \<open>The query parameters of a request; \<open>None\<close> for a parameter that is not given.\<close>

record query =
  q_state :: "string option"
  q_lat :: "string option"
  q_lon :: "string option"
  q_nocache :: "string option"

datatype 'a response = Json 'a | Status500 string

text \<open>
  \<^verbatim>\<open>String(req.query.nocache || '').toLowerCase() === '1' || ... === 'true'\<close>
\<close>

definition nocacheFlag :: "query \<Rightarrow> bool" where
  "nocacheFlag q =
     (toLowerCase (orEmpty (q_nocache q)) = ''1'' \<or> toLowerCase (orEmpty (q_nocache q)) = ''true'')"

text \<open>
  \<^verbatim>\<open>parseFloat(req.query.lat)\<close> with the fallback to the default coordinate; a missing
  parameter is \<^verbatim>\<open>undefined\<close>, which \<^verbatim>\<open>parseFloat\<close> reads as a text.
\<close>

definition coordOr :: "string option \<Rightarrow> rat \<Rightarrow> rat" where
  "coordOr p dflt =
     (case parseFloat (case p of None \<Rightarrow> ''undefined'' | Some s \<Rightarrow> s) of
        Num v \<Rightarrow> v
      | _ \<Rightarrow> dflt)"

text \<open>The constants \<^verbatim>\<open>state\<close>, \<^verbatim>\<open>lat\<close>, \<^verbatim>\<open>lon\<close> and \<^verbatim>\<open>key\<close> of the handler.\<close>

definition reqState :: "query \<Rightarrow> string" where
  "reqState q = toUpperCase (if truthy (q_state q) then orEmpty (q_state q) else ''GA'')"

definition reqLat :: "query \<Rightarrow> rat" where
  "reqLat q = coordOr (q_lat q) (fst DEFAULT_COORDS)"

definition reqLon :: "query \<Rightarrow> rat" where
  "reqLon q = coordOr (q_lon q) (snd DEFAULT_COORDS)"

definition alertsKey :: "string \<Rightarrow> rat \<Rightarrow> rat \<Rightarrow> string" where
  "alertsKey st lat lon =
     ''alerts:'' @ st @ '':'' @ toFixed2 lat @ '','' @ toFixed2 lon @ '':'' @ join ''|'' ALERT_ATOM_URLS"

text \<open>
  The handler of \<^verbatim>\<open>/api/alerts\<close>: \<open>fetch\<close> is the upstream, \<open>now\<close> the value of
  \<^verbatim>\<open>Date.now()\<close>, \<open>stamp\<close> the text of the later \<^verbatim>\<open>new Date()\<close>.  It returns the
  response and the cache after the request.  An exception ends in the \<^verbatim>\<open>catch\<close> block,
  which answers with status 500.
\<close>

definition alertsHandler ::
  "(string \<Rightarrow> httpResult) \<Rightarrow> int \<Rightarrow> string \<Rightarrow> query \<Rightarrow> alertResult cache
     \<Rightarrow> alertResult response \<times> alertResult cache" where
  "alertsHandler fetch now stamp q cache =
     (let st = reqState q; lat = reqLat q; lon = reqLon q;
          nocache = nocacheFlag q;
          key = alertsKey st lat lon;
          hit = (if \<not> nocache then cacheRead cache key now else None)
      in case hit of
           Some d \<Rightarrow> (Json d, cache)
         | None \<Rightarrow>
             (case fetchAll fetch ALERT_ATOM_URLS of
                None \<Rightarrow> (Status500 ''Failed to retrieve alerts'', cache)
              | Some xmls \<Rightarrow>
                  (let d = aggregate st lat lon stamp xmls
                   in (Json d, if \<not> nocache then cacheWrite cache key d now ALERTS_TTL_MS else cache))))"

text \<open>
  The handler of \<^verbatim>\<open>/api/weather\<close>, with the key that \<^verbatim>\<open>cacheKey\<close> made and the outcome
  of the provider (\<open>None\<close> when it throws) as arguments.
\<close>

definition weatherHandler :: "'w option \<Rightarrow> int \<Rightarrow> string \<Rightarrow> 'w cache \<Rightarrow> 'w response \<times> 'w cache" where
  "weatherHandler provider now key cache =
     (case cacheRead cache key now of
        Some d \<Rightarrow> (Json d, cache)
      | None \<Rightarrow>
          (case provider of
             None \<Rightarrow> (Status500 ''Failed to retrieve weather data'', cache)
           | Some d \<Rightarrow> (Json d, cacheWrite cache key d now DEFAULT_TTL_MS)))"

section \<open>Specification-side notions and example inputs\<close>

text \<open>
  The entries that deduplication keeps, described without the map: an entry is kept when
  its id is a non-empty string that no earlier entry (and no key in \<open>seen\<close>) has.
\<close>

fun firstSeen :: "string set \<Rightarrow> alertEntry list \<Rightarrow> alertEntry list" where
  "firstSeen seen [] = []"
| "firstSeen seen (e # es) =
     (case entry_id e of
        None \<Rightarrow> firstSeen seen es
      | Some k \<Rightarrow> if k \<noteq> [] \<and> k \<notin> seen then e # firstSeen (insert k seen) es else firstSeen seen es)"

text \<open>
  The tokens of a text in the words of the specification: the maximal runs of characters
  that are not white space, from left to right.  \<open>cur\<close> is the run being read.
\<close>

fun tokens_from :: "string \<Rightarrow> string \<Rightarrow> string list" where
  "tokens_from cur [] = (if cur = [] then [] else [cur])"
| "tokens_from cur (c # cs) =
     (if isSpace c then (if cur = [] then tokens_from [] cs else cur # tokens_from [] cs)
      else tokens_from (cur @ [c]) cs)"

definition tokens :: "string \<Rightarrow> string list" where
  "tokens s = tokens_from [] s"

text \<open>Example inputs for the instances below.\<close>

definition plainEntry :: "string \<Rightarrow> string \<Rightarrow> alertEntry" where
  "plainEntry i t =
     \<lparr> entry_id = Some i, title = Some t, summary = None, updated = None, effective = None,
       expires = None, areaDesc = None, severity = None, event = None, link = None,
       ugc = [], fips6 = [], polygon = None \<rparr>"

definition fiveTexas :: "alertEntry list" where
  "fiveTexas =
     [plainEntry ''a1'' ''Tornado Warning for Harris, TX'',
      plainEntry ''a2'' ''Flood Warning for Travis, TX'',
      plainEntry ''a3'' ''Severe Thunderstorm Warning for Bexar, TX'',
      plainEntry ''a4'' ''Tornado Warning for Dallas, TX'',
      plainEntry ''a5'' ''Flash Flood Warning for El Paso, TX'']"

definition square :: "point list" where
  "square = [(0, 0), (0, 10), (10, 10), (10, 0)]"

definition squareEntry :: alertEntry where
  "squareEntry = (plainEntry ''p1'' ''Tornado Warning'')\<lparr> polygon := Some square \<rparr>"

definition entries80 :: "alertEntry list" where
  "entries80 = map (\<lambda>n. plainEntry (showNat n) ''Flood Warning'') [0..<80]"

definition entries80poly :: "alertEntry list" where
  "entries80poly = squareEntry # map (\<lambda>n. plainEntry (showNat n) ''Flood Warning'') [0..<79]"

definition noQuery :: query where
  "noQuery = \<lparr> q_state = None, q_lat = None, q_lon = None, q_nocache = None \<rparr>"

definition feedsEmpty :: "string \<Rightarrow> httpResult" where
  "feedsEmpty u = Http 200 ''<feed></feed>''"

definition feedsDown :: "string \<Rightarrow> httpResult" where
  "feedsDown u = NetworkError"

definition emptyResult :: "string \<Rightarrow> alertResult" where
  "emptyResult stamp =
     \<lparr> state = ''GA'', point = DEFAULT_COORDS, count = 0, items = [], fetchedAt = stamp,
       debug = \<lparr> fetched = 0, afterState = 0, afterPoly = 0, feeds = 3 \<rparr> \<rparr>"

definition emptyIdFeed :: string where
  "emptyIdFeed = ''<entry><id></id></entry>''"

definition cdataEntry :: string where
  "cdataEntry = ''<entry><summary><![CDATA[text]]></summary></entry>''"

definition twoGroupGeocode :: string where
  "twoGroupGeocode =
     ''<geocode><valueName>UGC</valueName><value>GAZ001</value>'' @
     ''<valueName>FIPS6</valueName><value>013121</value></geocode>''"

definition ugcOnlyGeocode :: string where
  "ugcOnlyGeocode =
     ''<geocode><valueName>UGC</valueName><value>GAZ001</value><value>GAZ002 GAZ003</value></geocode>''"

section \<open>The response cache\<close>

text \<open>
  Claim C8, as the code has it.  A read of the cache misses exactly when the key is absent
  or the time of the read has reached the entry's \<open>expiresAt\<close> (\<open>now \<ge> expiresAt\<close>: the
  handlers test \<^verbatim>\<open>entry.expiresAt > now\<close>); otherwise it returns the stored value.  So a
  write with a positive time to live followed by a read at the same time returns the value
  written, and a read once the time to live has passed, or at the very moment it ends, is
  a miss.
\<close>

theorem cache_read_miss_iff:
  "(cacheRead cache k now = None \<longleftrightarrow>
      (cache k = None \<or> (\<exists>e. cache k = Some e \<and> expiresAt e \<le> now)))
   \<and> (cache k = Some e \<and> now < expiresAt e \<longrightarrow> cacheRead cache k now = Some (data e))
   \<and> (0 < ttl \<longrightarrow> cacheRead (cacheWrite cache k v now ttl) k now = Some v)
   \<and> (now + ttl \<le> later \<longrightarrow> cacheRead (cacheWrite cache k v now ttl) k later = None)"
  by (auto simp: cacheRead_def cacheWrite_def split: option.splits)

theorem cache_read_miss_iff_witness:
  "cacheWrite Map.empty ''k'' ''v'' 0 1000 ''k'' = Some \<lparr> data = ''v'', expiresAt = 1000 \<rparr>
   \<and> cacheRead (cacheWrite Map.empty ''k'' ''v'' 0 1000) ''k'' 500 = Some ''v''
   \<and> cacheRead (cacheWrite Map.empty ''k'' ''v'' 0 1000) ''k'' 0 = Some ''v''
   \<and> cacheRead (cacheWrite Map.empty ''k'' ''v'' 0 1000) ''k'' 1000 = None
   \<and> cacheRead (cacheWrite Map.empty ''k'' ''v'' 0 1000) ''j'' 500 = None"
proof -
  have stored: "cacheWrite Map.empty ''k'' ''v'' 0 1000 ''k'' = Some \<lparr> data = ''v'', expiresAt = 1000 \<rparr>"
    by (simp add: cacheWrite_def)
  have absent: "cacheWrite Map.empty ''k'' ''v'' 0 1000 ''j'' = None"
    by (simp add: cacheWrite_def)
  show ?thesis
    using cache_read_miss_iff [of "cacheWrite Map.empty ''k'' ''v'' 0 1000" "''k''" 500
            "\<lparr> data = ''v'', expiresAt = 1000 \<rparr>" 1000 "''v''" 1000]
          cache_read_miss_iff [of "Map.empty" "''k''" 0
            "\<lparr> data = ''v'', expiresAt = 1000 \<rparr>" 1000 "''v''" 1000]
          cache_read_miss_iff [of "cacheWrite Map.empty ''k'' ''v'' 0 1000" "''j''" 500
            "\<lparr> data = ''v'', expiresAt = 1000 \<rparr>" 1000 "''v''" 1000]
          stored absent
    by simp
qed

text \<open>
  The claim as the specification states it (a miss only when \<open>now > expiresAt\<close>) fails at
  the boundary: an entry written at time 0 with a time to live of 1000 is read at time
  1000, which is not after its \<open>expiresAt\<close>, and the read is a miss.
\<close>

theorem cache_boundary_counterexample:
  "expiresAt (the (cacheWrite Map.empty ''k'' ''v'' 0 1000 ''k'')) = 1000
   \<and> cacheRead (cacheWrite Map.empty ''k'' ''v'' 0 1000) ''k'' 1000 = None"
  by (simp add: cacheRead_def cacheWrite_def)

text \<open>
  A handler that missed and fetched serves the next request for the same key from the
  cache while the time to live lasts, whatever the provider would return then.
\<close>

lemma weatherHandler_second_request:
  "cacheRead cache key now = None \<Longrightarrow> now \<le> later \<Longrightarrow> later < now + DEFAULT_TTL_MS \<Longrightarrow>
   fst (weatherHandler provider' later key (snd (weatherHandler (Some d) now key cache))) = Json d"
  by (simp add: weatherHandler_def cacheRead_def cacheWrite_def)

section \<open>Point in polygon\<close>

lemma pip_loop_returns:
  "i \<ge> length poly \<or> j < length poly \<Longrightarrow> \<exists>b. pip_loop lat lon poly i j inside = Some b"
proof (induction lat lon poly i j inside rule: pip_loop.induct)
  case (1 lat lon poly i j inside)
  show ?case
  proof (cases "i < length poly")
    case True
    with "1.prems" have j: "j < length poly" by simp
    from "1.IH"[OF True j refl refl refl refl refl] True
    have "\<exists>b. pip_loop lat lon poly (Suc i) i
            (if ((fst (poly ! i) > lat) \<noteq> (fst (poly ! j) > lat) \<and>
                 lon < ((snd (poly ! j) - snd (poly ! i)) * (lat - fst (poly ! i))) /
                       (if fst (poly ! j) - fst (poly ! i) = 0 then 1 / 10 ^ 12
                        else fst (poly ! j) - fst (poly ! i)) + snd (poly ! i))
             then \<not> inside else inside) = Some b"
      by simp
    with True j show ?thesis
      by (subst pip_loop.simps) (simp add: Let_def)
  next
    case False
    then show ?thesis by (subst pip_loop.simps) simp
  qed
qed

lemma pointInPolygon_returns: "\<exists>b. pointInPolygon lat lon poly = Some b"
proof (cases poly)
  case None
  then have "pointInPolygon lat lon poly = Some False" by (simp add: pointInPolygon_def)
  then show ?thesis by blast
next
  case (Some ps)
  show ?thesis
  proof (cases "length ps < 3")
    case True
    with Some have "pointInPolygon lat lon poly = Some False" by (simp add: pointInPolygon_def)
    then show ?thesis by blast
  next
    case False
    then have "length ps - 1 < length ps" by simp
    then obtain b where "pip_loop lat lon ps 0 (length ps - 1) False = Some b"
      using pip_loop_returns[of ps 0 "length ps - 1" lat lon False] by blast
    with Some False show ?thesis by (simp add: pointInPolygon_def)
  qed
qed

lemma pointInPolygon_short: "length poly < 3 \<Longrightarrow> pointInPolygon lat lon (Some poly) = Some False"
  by (simp add: pointInPolygon_def)

lemma pointInPolygon_square_values:
  "pointInPolygon 5 5 (Some square) = Some True \<and> pointInPolygon 20 20 (Some square) = Some False
   \<and> pointInPolygon 0 5 (Some square) = Some True"
  by code_simp

text \<open>
  Claim C9.  For the square \<open>[[0,0],[0,10],[10,10],[10,0]]\<close> the function returns true for
  the point (5,5) and false for the point (20,20); for the point (0,5) on an edge it returns
  true (it is a function of its arguments, so this is its value on every call); it returns
  a boolean and does not throw, for every argument; and a polygon of fewer than 3 points,
  or an argument that is no array, gives false.  All coordinates of the three calls are
  small integers, on which the arithmetic of doubles is exact.
\<close>

theorem pointInPolygon_square:
  "pointInPolygon 5 5 (Some square) = Some True
   \<and> pointInPolygon 20 20 (Some square) = Some False
   \<and> pointInPolygon 0 5 (Some square) = Some True
   \<and> (\<exists>b. pointInPolygon lat lon any = Some b)
   \<and> (length poly < 3 \<longrightarrow> pointInPolygon lat lon (Some poly) = Some False)
   \<and> pointInPolygon lat lon None = Some False"
  using pointInPolygon_square_values pointInPolygon_returns[of lat lon any]
  by (simp add: pointInPolygon_short) (simp add: pointInPolygon_def)

theorem pointInPolygon_square_witness:
  "length [(0, 0), (0, 10 :: rat)] < 3 \<and> pointInPolygon 0 5 (Some [(0, 0), (0, 10)]) = Some False"
  using pointInPolygon_square [of 0 5 "None" "[(0, 0), (0, 10)]"]
  by simp

section \<open>The filters and the cap\<close>

lemma stateFilter_Nil_iff: "fst (stateFilter st all) = [] \<longleftrightarrow> all = []"
  by (auto simp: stateFilter_def Let_def)

lemma polygonFilter_Nil_iff: "fst (polygonFilter lat lon its) = [] \<longleftrightarrow> its = []"
  by (auto simp: polygonFilter_def Let_def)

lemma items_aggregateEntries:
  "items (aggregateEntries st lat lon stamp merged) =
     take 50 (fst (polygonFilter lat lon (fst (stateFilter st (dedupe merged)))))"
  by (simp add: aggregateEntries_def Let_def case_prod_beta)

lemma count_aggregateEntries:
  "count (aggregateEntries st lat lon stamp merged) =
     length (items (aggregateEntries st lat lon stamp merged))"
  by (simp add: aggregateEntries_def Let_def case_prod_beta)

lemma subseq_stateFilter: "subseq (fst (stateFilter st all)) all"
  by (simp add: stateFilter_def Let_def)

lemma subseq_polygonFilter: "subseq (fst (polygonFilter lat lon its)) its"
  by (simp add: polygonFilter_def Let_def)

text \<open>
  Claim C1.  For every deduplicated list \<open>all\<close> and every state other than \<open>ALL\<close>: when
  the state filter keeps no entry, the working list after the filter is the full list
  \<open>all\<close> again.  So the items of a response are empty only when the deduplicated list
  itself is empty, whatever the state.  The instance with five entries is the witness.
\<close>

theorem state_filter_fallback:
  "(st \<noteq> ''ALL'' \<and> filter (stateMatch st) all = [] \<longrightarrow> fst (stateFilter st all) = all)
   \<and> (items (aggregateEntries st lat lon stamp merged) = [] \<longleftrightarrow> dedupe merged = [])"
  by (simp add: items_aggregateEntries stateFilter_Nil_iff polygonFilter_Nil_iff)
     (simp add: stateFilter_def Let_def)

theorem state_filter_fallback_witness:
  "''GA'' \<noteq> ''ALL'' \<and> filter (stateMatch ''GA'') fiveTexas = [] \<and> length fiveTexas = 5
   \<and> fst (stateFilter ''GA'' fiveTexas) = fiveTexas"
proof -
  have none: "filter (stateMatch ''GA'') fiveTexas = []"
    by code_simp
  have five: "length fiveTexas = 5"
    by (simp add: fiveTexas_def)
  show ?thesis
    using state_filter_fallback [of "''GA''" fiveTexas] none five by simp
qed

text \<open>
  Claim C2.  Let \<open>S\<close> be the entries of the working list whose polygon is present, has at
  least 3 points and contains the query point (\<^verbatim>\<open>pointInPolygon\<close> returns true).  If \<open>S\<close>
  is not empty it is the new working list; if it is empty the working list stays as it is.
\<close>

theorem polygon_filter_precedence:
  "(filter (\<lambda>i. case polygon i of None \<Rightarrow> False
                 | Some p \<Rightarrow> 3 \<le> length p \<and> pointInPolygon lat lon (Some p) = Some True) its \<noteq> [] \<longrightarrow>
      fst (polygonFilter lat lon its) =
        filter (\<lambda>i. case polygon i of None \<Rightarrow> False
                   | Some p \<Rightarrow> 3 \<le> length p \<and> pointInPolygon lat lon (Some p) = Some True) its)
   \<and> (filter (\<lambda>i. case polygon i of None \<Rightarrow> False
                   | Some p \<Rightarrow> 3 \<le> length p \<and> pointInPolygon lat lon (Some p) = Some True) its = [] \<longrightarrow>
      fst (polygonFilter lat lon its) = its)"
proof -
  have same: "(\<lambda>i. polygon i \<noteq> None \<and> pointInPolygon lat lon (polygon i) = Some True) =
              (\<lambda>i. case polygon i of None \<Rightarrow> False
                   | Some p \<Rightarrow> 3 \<le> length p \<and> pointInPolygon lat lon (Some p) = Some True)"
    by (auto simp: fun_eq_iff pointInPolygon_def split: option.splits)
  show ?thesis
    unfolding polygonFilter_def Let_def same by simp
qed

theorem polygon_filter_precedence_witness:
  "fst (polygonFilter 5 5 [squareEntry, plainEntry ''p2'' ''Flood Warning'']) = [squareEntry]
   \<and> fst (polygonFilter 20 20 [squareEntry, plainEntry ''p2'' ''Flood Warning''])
       = [squareEntry, plainEntry ''p2'' ''Flood Warning'']"
proof -
  have hit: "filter (\<lambda>i. case polygon i of None \<Rightarrow> False
               | Some p \<Rightarrow> 3 \<le> length p \<and> pointInPolygon 5 5 (Some p) = Some True)
             [squareEntry, plainEntry ''p2'' ''Flood Warning''] = [squareEntry]"
    by code_simp
  have miss: "filter (\<lambda>i. case polygon i of None \<Rightarrow> False
               | Some p \<Rightarrow> 3 \<le> length p \<and> pointInPolygon 20 20 (Some p) = Some True)
             [squareEntry, plainEntry ''p2'' ''Flood Warning''] = []"
    by code_simp
  show ?thesis
    using polygon_filter_precedence [of 5 5 "[squareEntry, plainEntry ''p2'' ''Flood Warning'']"]
          polygon_filter_precedence [of 20 20 "[squareEntry, plainEntry ''p2'' ''Flood Warning'']"]
          hit miss
    by simp
qed

text \<open>
  Claim C7, as the code has it.  The items of every result are the first 50 entries of the
  final working list (the list after the state filter and the polygon filter), which is a
  subsequence of the deduplicated list: the order is the one of deduplication and nothing
  is sorted.  There are at most 50 items, \<open>count\<close> is their number, and a final working
  list of 80 entries gives 50 items and the count 50.
\<close>

theorem result_cap:
  "items (aggregateEntries st lat lon stamp merged) =
     take 50 (fst (polygonFilter lat lon (fst (stateFilter st (dedupe merged)))))
   \<and> subseq (fst (polygonFilter lat lon (fst (stateFilter st (dedupe merged))))) (dedupe merged)
   \<and> length (items (aggregateEntries st lat lon stamp merged)) \<le> 50
   \<and> count (aggregateEntries st lat lon stamp merged) =
       length (items (aggregateEntries st lat lon stamp merged))
   \<and> (length (fst (polygonFilter lat lon (fst (stateFilter st (dedupe merged))))) = 80 \<longrightarrow>
        length (items (aggregateEntries st lat lon stamp merged)) = 50
        \<and> count (aggregateEntries st lat lon stamp merged) = 50)"
proof -
  have "subseq (fst (polygonFilter lat lon (fst (stateFilter st (dedupe merged))))) (dedupe merged)"
    using subseq_polygonFilter subseq_stateFilter subseq_order.order_trans by blast
  then show ?thesis
    by (simp add: items_aggregateEntries count_aggregateEntries)
qed

theorem result_cap_witness:
  "length (dedupe entries80) = 80
   \<and> length (items (aggregateEntries ''ALL'' 0 0 [] entries80)) = 50
   \<and> count (aggregateEntries ''ALL'' 0 0 [] entries80) = 50"
proof -
  have a: "length (dedupe entries80) = 80"
    by code_simp
  have b: "length (fst (polygonFilter 0 0 (fst (stateFilter ''ALL'' (dedupe entries80))))) = 80"
    by code_simp
  show ?thesis
    using result_cap [of "''ALL''" 0 0 "[]" entries80] a b by simp
qed

text \<open>
  The claim as the specification states it (80 deduplicated entries give 50 items) fails
  when a filter narrows the list before the cap: of 80 deduplicated entries one has a
  polygon that contains the query point, the polygon filter keeps that entry alone, and
  the result has one item and the count 1.
\<close>

theorem result_cap_counterexample:
  "dedupe entries80poly = entries80poly
   \<and> length entries80poly = 80
   \<and> items (aggregateEntries ''ALL'' 5 5 [] entries80poly) = [squareEntry]
   \<and> count (aggregateEntries ''ALL'' 5 5 [] entries80poly) = 1"
proof -
  have a: "dedupe entries80poly = entries80poly"
    by code_simp
  have b: "length entries80poly = 80"
    by (simp add: entries80poly_def)
  have c: "take 50 (fst (polygonFilter 5 5 (fst (stateFilter ''ALL'' entries80poly)))) = [squareEntry]"
    by code_simp
  show ?thesis
    by (simp add: items_aggregateEntries count_aggregateEntries a b c)
qed

section \<open>Deduplication\<close>

lemma dedupe_loop_firstSeen:
  "map snd (dedupe_loop xs acc) = map snd acc @ firstSeen (fst ` set acc) xs"
proof (induction xs arbitrary: acc)
  case Nil
  then show ?case by simp
next
  case (Cons e es)
  show ?case
  proof (cases "entry_id e")
    case None
    then show ?thesis using Cons.IH[of acc] by simp
  next
    case (Some k)
    show ?thesis
    proof (cases "k \<noteq> [] \<and> k \<notin> fst ` set acc")
      case True
      then have "map_of acc k = None" by (simp add: map_of_eq_None_iff)
      with True Some show ?thesis using Cons.IH[of "acc @ [(k, e)]"] by simp
    next
      case False
      then have "k = [] \<or> map_of acc k \<noteq> None" by (auto simp: map_of_eq_None_iff)
      with False Some show ?thesis using Cons.IH[of acc] by auto
    qed
  qed
qed

lemma dedupe_firstSeen: "dedupe merged = firstSeen {} merged"
  by (simp add: dedupe_def dedupe_loop_firstSeen)

lemma firstSeen_ids:
  "e \<in> set (firstSeen seen xs) \<Longrightarrow> \<exists>k. entry_id e = Some k \<and> k \<noteq> [] \<and> k \<notin> seen \<and> e \<in> set xs"
  by (induction xs arbitrary: seen) (auto split: option.splits if_splits)

lemma firstSeen_distinct: "distinct (map entry_id (firstSeen seen xs))"
proof (induction xs arbitrary: seen)
  case Nil
  then show ?case by simp
next
  case (Cons e es)
  show ?case
  proof (cases "entry_id e")
    case None
    then show ?thesis using Cons.IH by simp
  next
    case (Some k)
    have "Some k \<notin> entry_id ` set (firstSeen (insert k seen) es)"
      using firstSeen_ids[of _ "insert k seen" es] by force
    with Some show ?thesis using Cons.IH by simp
  qed
qed

lemma firstSeen_skip:
  "k \<in> seen \<Longrightarrow> filter (\<lambda>e. entry_id e = Some k) (firstSeen seen xs) = []"
  by (auto simp: filter_empty_conv dest: firstSeen_ids)

lemma firstSeen_first:
  "k \<noteq> [] \<Longrightarrow> k \<notin> seen \<Longrightarrow>
   filter (\<lambda>e. entry_id e = Some k) (firstSeen seen xs) = take 1 (filter (\<lambda>e. entry_id e = Some k) xs)"
proof (induction xs arbitrary: seen)
  case Nil
  then show ?case by simp
next
  case (Cons e es)
  show ?case
  proof (cases "entry_id e = Some k")
    case True
    with Cons.prems show ?thesis by (simp add: firstSeen_skip)
  next
    case False
    with Cons show ?thesis by (auto split: option.splits)
  qed
qed

lemma firstSeen_subseq: "subseq (firstSeen seen xs) xs"
  by (induction xs arbitrary: seen) (auto split: option.splits)

text \<open>
  Claim C6, as the code has it.  Deduplication keeps, for each non-empty id, exactly the
  first entry of the merged list that has it, in the order of the merged list; every entry
  whose id is \<^verbatim>\<open>null\<close> or the empty string is dropped.  So two feeds that share a
  non-empty id give one entry for that id, the one seen first.
\<close>

theorem dedupe_first_occurrence:
  "(\<forall>e \<in> set (dedupe merged). truthy (entry_id e))
   \<and> distinct (map entry_id (dedupe merged))
   \<and> (k \<noteq> [] \<longrightarrow>
        filter (\<lambda>e. entry_id e = Some k) (dedupe merged) =
          take 1 (filter (\<lambda>e. entry_id e = Some k) merged))
   \<and> subseq (dedupe merged) merged"
proof -
  have "\<forall>e \<in> set (dedupe merged). truthy (entry_id e)"
    by (auto simp: dedupe_firstSeen truthy_def dest: firstSeen_ids)
  then show ?thesis
    by (simp add: dedupe_firstSeen firstSeen_distinct firstSeen_first firstSeen_subseq)
qed

theorem dedupe_first_occurrence_witness:
  "filter (\<lambda>e. entry_id e = Some ''a1'')
     (dedupe ([plainEntry ''a1'' ''first feed'', plainEntry ''b'' ''other''] @ [plainEntry ''a1'' ''second feed'']))
   = [plainEntry ''a1'' ''first feed'']
   \<and> truthy (entry_id (plainEntry ''a1'' ''first feed''))"
proof -
  have firsts: "take 1 (filter (\<lambda>e. entry_id e = Some ''a1'')
      ([plainEntry ''a1'' ''first feed'', plainEntry ''b'' ''other''] @ [plainEntry ''a1'' ''second feed'']))
    = [plainEntry ''a1'' ''first feed'']"
    by (simp add: plainEntry_def)
  have kept: "plainEntry ''a1'' ''first feed'' \<in>
      set (dedupe ([plainEntry ''a1'' ''first feed'', plainEntry ''b'' ''other''] @ [plainEntry ''a1'' ''second feed'']))"
    by code_simp
  show ?thesis
    using dedupe_first_occurrence
            [of "[plainEntry ''a1'' ''first feed'', plainEntry ''b'' ''other''] @ [plainEntry ''a1'' ''second feed'']" "''a1''"]
          firsts kept
    by auto
qed

lemma parseAtom_emptyIdFeed:
  "parseAtom emptyIdFeed =
     [\<lparr> entry_id = Some [], title = None, summary = None, updated = None, effective = None,
        expires = None, areaDesc = None, severity = None, event = None, link = None,
        ugc = [], fips6 = [], polygon = None \<rparr>]"
  by code_simp

text \<open>
  The claim as the specification states it (one entry for each id) fails for the id that
  is the empty string: an entry block with the empty element \<^verbatim>\<open><id></id>\<close> has the id
  \<^verbatim>\<open>""\<close>, which is neither \<^verbatim>\<open>null\<close> nor missing, and two feeds that share it give no
  entry at all.
\<close>

theorem dedupe_empty_id_counterexample:
  "map entry_id (parseAtom emptyIdFeed) = [Some []]
   \<and> dedupe (parseAtom emptyIdFeed @ parseAtom emptyIdFeed) = []"
  by (simp add: parseAtom_emptyIdFeed dedupe_def)

section \<open>Polygon parsing\<close>

lemma rmatch_spaceChar:
  "rmatch False spaceChar (x # t) = (if isSpace x then [t] else [])"
  by (simp add: spaceChar_def rmatch.simps setMatch_def isSpace_def)

lemma rmatch_star_space:
  "rmatch False (RStar spaceChar) s \<noteq> [] \<and> hd (rmatch False (RStar spaceChar) s) = dropWhile isSpace s"
proof (induction s)
  case Nil
  then show ?case by (simp add: spaceChar_def rmatch.simps)
next
  case (Cons x t)
  then show ?case by (simp add: rmatch.simps(6)[of _ _ "x # t"] rmatch_spaceChar)
qed

lemma rmatch_plus_space:
  "rmatch False (RPlus spaceChar) (x # t) = (if isSpace x then rmatch False (RStar spaceChar) t else [])"
  by (simp add: rmatch.simps(4) rmatch_spaceChar)

lemma rmatch_plus_space_cases:
  "(\<not> isSpace x \<and> rmatch False (RPlus spaceChar) (x # t) = []) \<or>
   (isSpace x \<and> (\<exists>more. rmatch False (RPlus spaceChar) (x # t) = dropWhile isSpace t # more))"
proof (cases "isSpace x")
  case True
  obtain r more where rm: "rmatch False (RStar spaceChar) t = r # more"
    using rmatch_star_space[of t] by (cases "rmatch False (RStar spaceChar) t") auto
  then have "r = dropWhile isSpace t" using rmatch_star_space[of t] by simp
  with rm True show ?thesis by (simp add: rmatch_plus_space)
next
  case False
  then show ?thesis by (simp add: rmatch_plus_space)
qed

lemma tokens_from_dropWhile: "tokens_from [] (dropWhile isSpace s) = tokens_from [] s"
  by (induction s) auto

text \<open>
  The pieces of \<^verbatim>\<open>split(/\s+/)\<close> that are not empty are the tokens.  (An empty piece
  arises before a leading and after a trailing separator.)
\<close>

lemma split_go_tokens:
  "filter (\<lambda>p. p \<noteq> []) (split_go (RPlus spaceChar) piece s) = tokens_from piece s"
proof (induction s arbitrary: piece rule: length_induct)
  case (1 s)
  show ?case
  proof (cases s)
    case Nil
    then show ?thesis by (simp add: split_go.simps[of _ piece "[]"])
  next
    case (Cons x t)
    from rmatch_plus_space_cases[of x t] show ?thesis
    proof (elim disjE conjE exE)
      assume ns: "\<not> isSpace x" and m: "rmatch False (RPlus spaceChar) (x # t) = []"
      have "split_go (RPlus spaceChar) piece (x # t) = split_go (RPlus spaceChar) (piece @ [x]) t"
        by (subst split_go.simps) (simp only: m list.case)
      with 1 Cons ns show ?thesis by simp
    next
      fix more
      assume sp: "isSpace x"
        and m: "rmatch False (RPlus spaceChar) (x # t) = dropWhile isSpace t # more"
      have len: "length (dropWhile isSpace t) < length (x # t)"
        using length_dropWhile_le[of isSpace t] by simp
      have "split_go (RPlus spaceChar) piece (x # t) =
              piece # split_go (RPlus spaceChar) [] (dropWhile isSpace t)"
        by (subst split_go.simps) (simp only: m list.case len if_True)
      moreover have "filter (\<lambda>p. p \<noteq> []) (split_go (RPlus spaceChar) [] (dropWhile isSpace t)) =
              tokens_from [] (dropWhile isSpace t)"
        using 1 Cons len by simp
      ultimately show ?thesis using Cons sp by (simp add: tokens_from_dropWhile)
    qed
  qed
qed

lemma tokens_from_all_space:
  "\<forall>x \<in> set s. isSpace x \<Longrightarrow> tokens_from cur s = (if cur = [] then [] else [cur])"
  by (induction s arbitrary: cur) auto

lemma tokens_from_strip_right:
  "tokens_from cur (rev (dropWhile isSpace (rev s))) = tokens_from cur s"
proof (induction s arbitrary: cur)
  case Nil
  then show ?case by simp
next
  case (Cons c cs)
  show ?case
  proof (cases "\<forall>x \<in> set cs. isSpace x")
    case True
    then have r: "rev (dropWhile isSpace (rev (c # cs))) = (if isSpace c then [] else [c])"
      by (simp add: dropWhile_append)
    show ?thesis using True by (simp only: r) (simp add: tokens_from_all_space)
  next
    case False
    then have r: "rev (dropWhile isSpace (rev (c # cs))) = c # rev (dropWhile isSpace (rev cs))"
      by (auto simp: dropWhile_append)
    show ?thesis by (simp only: r) (simp add: Cons.IH)
  qed
qed

lemma tokens_trim: "tokens (trim s) = tokens s"
  by (simp add: tokens_def trim_def tokens_from_strip_right tokens_from_dropWhile)

lemma parsePoint_Nil: "parsePoint [] = None"
  by code_simp

lemma map_filter_nonempty:
  "List.map_filter parsePoint (filter (\<lambda>p. p \<noteq> []) xs) = List.map_filter parsePoint xs"
  by (induction xs) (simp_all add: parsePoint_Nil split: option.splits)

lemma splitRe_tokens:
  "List.map_filter parsePoint (splitRe (RPlus spaceChar) (trim s)) = List.map_filter parsePoint (tokens s)"
proof (cases "trim s = []")
  case True
  then have "tokens s = []" using tokens_trim[of s] by (simp add: tokens_def)
  with True show ?thesis
    by (simp add: splitRe_def parsePoint_Nil)
next
  case False
  have "List.map_filter parsePoint (split_go (RPlus spaceChar) [] (trim s))
        = List.map_filter parsePoint (filter (\<lambda>p. p \<noteq> []) (split_go (RPlus spaceChar) [] (trim s)))"
    by (simp only: map_filter_nonempty)
  also have "\<dots> = List.map_filter parsePoint (tokens (trim s))"
    by (simp only: split_go_tokens tokens_def)
  finally show ?thesis using False by (simp add: splitRe_def tokens_trim)
qed

lemma parsePolygon_by_tokens:
  "parsePolygon (Some s) =
     (let pts = List.map_filter parsePoint (tokens s) in if 3 \<le> length pts then Some pts else None)"
proof (cases "s = []")
  case True
  then show ?thesis by (simp add: parsePolygon_def tokens_def)
next
  case False
  then show ?thesis by (simp add: parsePolygon_def splitRe_tokens Let_def)
qed

lemma parsePoint_Some_iff:
  "parsePoint p = Some (a, b) \<longleftrightarrow>
     (\<exists>la lo more. splitOn (CHR '','') p = la # lo # more \<and> parseFloat la = Num a \<and> parseFloat lo = Num b)"
proof -
  have undef: "parseFloat ''undefined'' = NaN" by code_simp
  have ne: "splitOn (CHR '','') p \<noteq> []" by (induction p) (auto split: list.splits)
  show ?thesis
  proof (cases "splitOn (CHR '','') p")
    case Nil
    with ne show ?thesis by simp
  next
    case (Cons la rest)
    show ?thesis
    proof (cases rest)
      case Nil
      with Cons show ?thesis
        by (auto simp: parsePoint_def undef split: number.splits)
    next
      case (Cons lo more)
      with \<open>splitOn (CHR '','') p = la # rest\<close> show ?thesis
        by (auto simp: parsePoint_def split: number.splits)
    qed
  qed
qed

lemma parsePolygon_malformed: "parsePolygon (Some ''1,2 3,x 5,6'') = None"
  by code_simp

text \<open>
  Claim C10.  For every text \<open>s\<close>, \<^verbatim>\<open>parsePolygon\<close> returns the points of the tokens of
  \<open>s\<close> (its maximal runs of characters that are not white space) that parse, in their
  order, if there are at least 3 of them, and \<^verbatim>\<open>null\<close> otherwise.  A token parses to the
  point \<open>(a, b)\<close> exactly when its text before the first comma and its text between the
  first and the second comma are read by \<^verbatim>\<open>parseFloat\<close> as the finite numbers \<open>a\<close> and
  \<open>b\<close>.  The text \<^verbatim>\<open>1,2 3,x 5,6\<close> gives \<^verbatim>\<open>null\<close>, as \<^verbatim>\<open>null\<close> itself does.
\<close>

theorem parsePolygon_tokens:
  "parsePolygon (Some s) =
     (let pts = List.map_filter parsePoint (tokens s) in if 3 \<le> length pts then Some pts else None)
   \<and> (parsePoint p = Some (a, b) \<longleftrightarrow>
        (\<exists>la lo more. splitOn (CHR '','') p = la # lo # more
           \<and> parseFloat la = Num a \<and> parseFloat lo = Num b))
   \<and> parsePolygon (Some ''1,2 3,x 5,6'') = None
   \<and> tokens ''1,2 3,x 5,6'' = [''1,2'', ''3,x'', ''5,6'']
   \<and> List.map_filter parsePoint (tokens ''1,2 3,x 5,6'') = [(1, 2), (5, 6)]
   \<and> parsePolygon None = None"
proof -
  have toks: "tokens ''1,2 3,x 5,6'' = [''1,2'', ''3,x'', ''5,6'']"
    by code_simp
  have pts: "List.map_filter parsePoint [''1,2'', ''3,x'', ''5,6''] = [(1, 2), (5, 6)]"
    by code_simp
  have null: "parsePolygon None = None"
    by (simp add: parsePolygon_def)
  show ?thesis
    using parsePolygon_by_tokens[of s] parsePoint_Some_iff[of p a b] parsePolygon_malformed toks pts null
    by simp
qed

section \<open>The no-cache option\<close>

lemma alertsHandler_nocache:
  "nocacheFlag q \<Longrightarrow>
   alertsHandler fetch now stamp q cache =
     (case fetchAll fetch ALERT_ATOM_URLS of
        None \<Rightarrow> (Status500 ''Failed to retrieve alerts'', cache)
      | Some xmls \<Rightarrow> (Json (aggregate (reqState q) (reqLat q) (reqLon q) stamp xmls), cache))"
  by (simp add: alertsHandler_def Let_def split: option.splits)

lemma alertsHandler_miss:
  "\<not> nocacheFlag q \<Longrightarrow> cacheRead cache (alertsKey (reqState q) (reqLat q) (reqLon q)) now = None \<Longrightarrow>
   alertsHandler fetch now stamp q cache =
     (case fetchAll fetch ALERT_ATOM_URLS of
        None \<Rightarrow> (Status500 ''Failed to retrieve alerts'', cache)
      | Some xmls \<Rightarrow>
          (Json (aggregate (reqState q) (reqLat q) (reqLon q) stamp xmls),
           cacheWrite cache (alertsKey (reqState q) (reqLat q) (reqLon q))
             (aggregate (reqState q) (reqLat q) (reqLon q) stamp xmls) now ALERTS_TTL_MS))"
  by (simp add: alertsHandler_def Let_def split: option.splits)

lemma nocacheFlag_one: "nocacheFlag (noQuery\<lparr> q_nocache := Some ''1'' \<rparr>)"
  by code_simp

lemma nocacheFlag_absent: "\<not> nocacheFlag noQuery"
  by code_simp

lemma fetchAll_feedsEmpty:
  "fetchAll feedsEmpty ALERT_ATOM_URLS = Some [''<feed></feed>'', ''<feed></feed>'', ''<feed></feed>'']"
  by (simp add: ALERT_ATOM_URLS_def feedsEmpty_def)

lemma fetchAll_feedsDown: "fetchAll feedsDown ALERT_ATOM_URLS = None"
  by (simp add: ALERT_ATOM_URLS_def feedsDown_def)

lemma parseAtom_no_entries: "parseAtom ''<feed></feed>'' = []"
  by code_simp

lemma reqState_default: "reqState (noQuery\<lparr> q_nocache := Some ''1'' \<rparr>) = ''GA''"
  by code_simp

lemma reqCoords_default:
  "(reqLat (noQuery\<lparr> q_nocache := Some ''1'' \<rparr>), reqLon (noQuery\<lparr> q_nocache := Some ''1'' \<rparr>)) = DEFAULT_COORDS"
  by code_simp

lemma aggregate_no_entries:
  "aggregate ''GA'' (fst DEFAULT_COORDS) (snd DEFAULT_COORDS) stamp
     [''<feed></feed>'', ''<feed></feed>'', ''<feed></feed>''] = emptyResult stamp"
  by (simp add: aggregate_def parseAtom_no_entries aggregateEntries_def dedupe_def stateFilter_def
        polygonFilter_def emptyResult_def ALERT_ATOM_URLS_def Let_def)

lemma first_request_nocache:
  "alertsHandler feedsEmpty 0 ''t1'' (noQuery\<lparr> q_nocache := Some ''1'' \<rparr>) Map.empty =
     (Json (emptyResult ''t1''), Map.empty)"
proof -
  have lat: "reqLat (noQuery\<lparr> q_nocache := Some ''1'' \<rparr>) = fst DEFAULT_COORDS"
    and lon: "reqLon (noQuery\<lparr> q_nocache := Some ''1'' \<rparr>) = snd DEFAULT_COORDS"
    using reqCoords_default by (metis fst_conv, metis snd_conv)
  show ?thesis
    by (simp add: alertsHandler_nocache[OF nocacheFlag_one] fetchAll_feedsEmpty reqState_default
          lat lon aggregate_no_entries)
qed

text \<open>
  Without the flag the result of a fetch is written, and a second request for the same
  key within the time to live is served from the cache.
\<close>

lemma alertsHandler_second_request:
  assumes "\<not> nocacheFlag q"
    and "cacheRead cache (alertsKey (reqState q) (reqLat q) (reqLon q)) now = None"
    and "fetchAll fetch ALERT_ATOM_URLS = Some xmls"
    and "now \<le> later" and "later < now + ALERTS_TTL_MS"
  shows "fst (alertsHandler fetch' later stamp' q (snd (alertsHandler fetch now stamp q cache))) =
           Json (aggregate (reqState q) (reqLat q) (reqLon q) stamp xmls)"
proof -
  have "snd (alertsHandler fetch now stamp q cache) =
          cacheWrite cache (alertsKey (reqState q) (reqLat q) (reqLon q))
            (aggregate (reqState q) (reqLat q) (reqLon q) stamp xmls) now ALERTS_TTL_MS"
    using assms(1-3) by (simp add: alertsHandler_miss)
  then show ?thesis
    using assms(1,4,5) by (simp add: alertsHandler_def Let_def cacheRead_def cacheWrite_def)
qed

text \<open>
  Claim C3, as the code has it.  With the no-cache flag set the handler neither reads nor
  writes the cache (the write stands under \<^verbatim>\<open>if (!nocache)\<close>): the response does not
  depend on the cache, and the cache after the request is the cache before it.  So a later
  request is answered exactly as if the no-cache request had not been made.
\<close>

theorem nocache_leaves_cache_unchanged:
  "nocacheFlag q \<Longrightarrow>
     snd (alertsHandler fetch now stamp q cache) = cache
     \<and> fst (alertsHandler fetch now stamp q cache) = fst (alertsHandler fetch now stamp q cache')
     \<and> alertsHandler fetch' now' stamp' q' (snd (alertsHandler fetch now stamp q cache)) =
         alertsHandler fetch' now' stamp' q' cache"
  by (simp add: alertsHandler_nocache split: option.splits)

theorem nocache_leaves_cache_unchanged_witness:
  "nocacheFlag (noQuery\<lparr> q_nocache := Some ''1'' \<rparr>)
   \<and> snd (alertsHandler feedsEmpty 0 ''t1'' (noQuery\<lparr> q_nocache := Some ''1'' \<rparr>) Map.empty) = Map.empty"
  using nocache_leaves_cache_unchanged
          [OF nocacheFlag_one, of feedsEmpty 0 "''t1''" Map.empty Map.empty feedsDown 1 "''t2''" noQuery]
        nocacheFlag_one
  by simp

text \<open>
  The claim as the specification states it (the fresh result is still written, and the
  next request without the flag is served from the cache) fails: a request with
  \<^verbatim>\<open>nocache=1\<close> on an empty cache fetches the feeds and answers, and it leaves the cache
  empty; the request without the flag one millisecond later has to fetch again, and
  answers with status 500 when the feeds cannot be reached.
\<close>

theorem nocache_write_counterexample:
  "alertsHandler feedsEmpty 0 ''t1'' (noQuery\<lparr> q_nocache := Some ''1'' \<rparr>) Map.empty =
     (Json (emptyResult ''t1''), Map.empty)
   \<and> fst (alertsHandler feedsDown 1 ''t2'' noQuery
        (snd (alertsHandler feedsEmpty 0 ''t1'' (noQuery\<lparr> q_nocache := Some ''1'' \<rparr>) Map.empty)))
     = Status500 ''Failed to retrieve alerts''"
proof -
  have "fst (alertsHandler feedsDown 1 ''t2'' noQuery Map.empty) = Status500 ''Failed to retrieve alerts''"
    by (simp add: alertsHandler_miss[OF nocacheFlag_absent] cacheRead_def fetchAll_feedsDown)
  then show ?thesis
    by (simp add: first_request_nocache)
qed

section \<open>Scalar fields and geocodes of an entry\<close>

text \<open>
  Claim C4 does not hold for the code.  For the entry block
  \<^verbatim>\<open><entry><summary><![CDATA[text]]></summary></entry>\<close> the field \<^verbatim>\<open>summary\<close> is the
  whole text \<^verbatim>\<open><![CDATA[text]]>\<close>: the pattern that should strip the wrapper is written
  with doubled backslashes and matches no CDATA section.  A field whose tags are not there
  is \<^verbatim>\<open>null\<close>, as the claim says.
\<close>

theorem get_cdata_not_stripped:
  "get cdataEntry ''summary'' = Some ''<![CDATA[text]]>''
   \<and> get cdataEntry ''title'' = None"
  by code_simp

text \<open>
  Claim C5 does not hold for the code.  In a geocode block with the values of UGC followed
  by the name FIPS6 and its value, the search for the next \<^verbatim>\<open><valueName>\<close> starts at the
  \<^verbatim>\<open><valueName>\<close> of UGC itself and finds it at index 0, so the segment is never cut
  (\<^verbatim>\<open>stop > 0\<close> is false) and the value of FIPS6 is collected as a UGC code.  The block
  of the claim's example, which has no second name, gives the three codes.
\<close>

theorem ugc_runs_past_next_valueName:
  "ugcOf twoGroupGeocode = [''GAZ001'', ''013121'']
   \<and> search True (RStr ''<valueName>'')
        (drop (nat (search True (valueNameRe ''UGC'') twoGroupGeocode)) twoGroupGeocode) = 0
   \<and> fips6Of twoGroupGeocode = [''013121'']
   \<and> ugcOf ugcOnlyGeocode = [''GAZ001'', ''GAZ002'', ''GAZ003'']"
  by code_simp

end
